theory Spec2Isabelle
  imports Main
begin

section \<open>Results of fallible code\<close>

text \<open>
  A Go function of the two packages either returns or panics (a nil pointer dereference,
  or an explicit \<^verbatim>\<open>panic(err)\<close>). A panic unwinds the whole call, so every caller
  propagates it.
\<close>

datatype 'a outcome = Panic | Normal 'a

section \<open>The SPDX data model (the fields the two packages touch)\<close>

text \<open>
  Go strings are \<^typ>\<open>string\<close>. A pointer field is an \<^typ>\<open>'a option\<close> (nil is
  \<open>None\<close>). A slice whose nil-ness the code tests is a \<open>list option\<close> (the nil slice
  is \<open>None\<close>, the empty non-nil slice is \<open>Some []\<close>); a slice of pointers is a list of
  options. Files, other licenses and external document references are passed through
  unread, so they are represented by opaque strings.
\<close>

record docElementID =
  DocumentRefID :: string
  ElementRefID :: string
  SpecialID :: string

record relationship =
  RefA :: docElementID
  RefB :: docElementID
  Relationship :: string
  RelationshipComment :: string

record packageExternalReference =
  Category :: string
  RefType :: string
  Locator :: string
  ExternalRefComment :: string

record checksum =
  Algorithm :: string
  Value :: string

record supplier =
  Supplier :: string
  SupplierType :: string

record creator =
  Creator :: string
  CreatorType :: string

record creationInfo =
  LicenseListVersion :: string
  Creators :: "creator list option"
  Created :: string
  CreatorComment :: string

record package =
  PackageName :: string
  PackageSPDXIdentifier :: string
  PackageVersion :: string
  PackageSupplier :: "supplier option"
  PackageDownloadLocation :: string
  FilesAnalyzed :: bool
  PackageChecksums :: "checksum list option"
  PackageLicenseConcluded :: string
  PackageLicenseDeclared :: string
  PackageCopyrightText :: string
  PackageDescription :: string
  PrimaryPackagePurpose :: string
  PackageExternalReferences :: "packageExternalReference option list option"

record document =
  SPDXVersion :: string
  DataLicense :: string
  SPDXIdentifier :: string
  DocumentName :: string
  DocumentNamespace :: string
  DocumentComment :: string
  CreationInfo :: "creationInfo option"
  Packages :: "package option list"
  Files :: "string list"
  Relationships :: "relationship option list"
  OtherLicenses :: "string list"
  ExternalDocumentReferences :: "string list"

text \<open>The zero values \<^verbatim>\<open>&spdx.CreationInfo{}\<close>, \<^verbatim>\<open>&spdx.Package{}\<close> and \<^verbatim>\<open>&spdx.Document{}\<close>.\<close>

definition emptyCreationInfo :: creationInfo where
  "emptyCreationInfo =
     \<lparr>LicenseListVersion = [], Creators = None, Created = [], CreatorComment = []\<rparr>"

definition emptyPackage :: package where
  "emptyPackage =
     \<lparr>PackageName = [], PackageSPDXIdentifier = [], PackageVersion = [],
      PackageSupplier = None, PackageDownloadLocation = [], FilesAnalyzed = False,
      PackageChecksums = None, PackageLicenseConcluded = [], PackageLicenseDeclared = [],
      PackageCopyrightText = [], PackageDescription = [], PrimaryPackagePurpose = [],
      PackageExternalReferences = None\<rparr>"

definition emptyDocument :: document where
  "emptyDocument =
     \<lparr>SPDXVersion = [], DataLicense = [], SPDXIdentifier = [], DocumentName = [],
      DocumentNamespace = [], DocumentComment = [], CreationInfo = None, Packages = [],
      Files = [], Relationships = [], OtherLicenses = [],
      ExternalDocumentReferences = []\<rparr>"

text \<open>\<^verbatim>\<open>common.MakeDocElementID(docRef, eltRef)\<close> and the constants of the SPDX library.\<close>

definition MakeDocElementID :: "string \<Rightarrow> string \<Rightarrow> docElementID" where
  "MakeDocElementID docRef eltRef =
     \<lparr>DocumentRefID = docRef, ElementRefID = eltRef, SpecialID = []\<rparr>"

definition TypeRelationshipDescribe :: string where
  "TypeRelationshipDescribe = ''DESCRIBES''"

definition TypeRelationshipContains :: string where
  "TypeRelationshipContains = ''CONTAINS''"

definition CategoryPackageManager :: string where
  "CategoryPackageManager = ''PACKAGE-MANAGER''"

definition TypePackageManagerPURL :: string where
  "TypePackageManagerPURL = ''purl''"

definition CategorySecurity :: string where
  "CategorySecurity = ''SECURITY''"

definition TypeSecurityCPE23Type :: string where
  "TypeSecurityCPE23Type = ''cpe23Type''"

section \<open>pkg/assemble/spdx/merge.go: settings and the synthesized root\<close>

record contact =
  Name :: string
  Email :: string

record appChecksum =
  Checksum_Algorithm :: string
  Checksum_Value :: string

record appLicense =
  License_Id :: string
  License_Expression :: string

record app =
  App_Name :: string
  App_Version :: string
  App_Description :: string
  App_Authors :: "contact list"
  App_PrimaryPurpose :: string
  App_Purl :: string
  App_CPE :: string
  App_License :: appLicense
  App_Supplier :: contact
  App_Checksums :: "appChecksum list"
  App_Copyright :: string

record mergeSettings =
  App :: app
  Input_Files :: "string list"
  Output_File :: string

record merge =
  settings :: mergeSettings
  out :: document
  ins :: "document list"
  rootPackageID :: string

text \<open>
  What merge.go uses and does not define: the table \<^verbatim>\<open>spdx_hash_algos\<close> (a Go map
  read with the zero value \<^verbatim>\<open>""\<close> for a missing key), \<^verbatim>\<open>cloneComp\<close> (\<open>None\<close> is
  its error return, the inner option its pointer result), \<^verbatim>\<open>composeNamespace\<close>,
  \<^verbatim>\<open>utcNowTime()\<close>, the tool's \<^verbatim>\<open>GitVersion\<close>, and the stream of strings
  \<^verbatim>\<open>uuid.New().String()\<close> returns, indexed by the number of earlier draws. They are
  parameters of the model.
\<close>

record mergeEnv =
  spdx_hash_algos :: "string \<Rightarrow> string"
  cloneComp :: "package option \<Rightarrow> package option option"
  composeNamespace :: "string \<Rightarrow> string"
  merge_now :: string
  GitVersion :: string
  uuid_New :: "nat \<Rightarrow> string"

text \<open>The loop over \<^verbatim>\<open>m.settings.App.Checksums\<close> of \<^verbatim>\<open>setupPrimaryComp\<close>.\<close>

fun rootChecksums :: "(string \<Rightarrow> string) \<Rightarrow> appChecksum list \<Rightarrow> checksum list" where
  "rootChecksums algos [] = []"
| "rootChecksums algos (c # cs) =
     (if length (Checksum_Value c) = 0 then rootChecksums algos cs
      else \<lparr>Algorithm = algos (Checksum_Algorithm c), Value = Checksum_Value c\<rparr>
             # rootChecksums algos cs)"

definition setupPrimaryComp :: "mergeEnv \<Rightarrow> merge \<Rightarrow> package" where
  "setupPrimaryComp e m =
    (let a = App (settings m);
         p = emptyPackage;
         p = p\<lparr>PackageName := App_Name a\<rparr>;
         p = p\<lparr>PackageVersion := App_Version a\<rparr>;
         p = p\<lparr>PackageSPDXIdentifier := ''RootPackage-'' @ rootPackageID m\<rparr>;
         p = p\<lparr>PackageDownloadLocation := ''NOASSERTION''\<rparr>;
         p = (if Name (App_Supplier a) \<noteq> [] \<or> Email (App_Supplier a) \<noteq> []
              then p\<lparr>PackageSupplier := Some
                     \<lparr>Supplier = Name (App_Supplier a) @ '' ('' @ Email (App_Supplier a) @ '')'',
                      SupplierType = ''Organization''\<rparr>\<rparr>
              else p\<lparr>PackageSupplier := Some
                     \<lparr>Supplier = ''NOASSERTION'', SupplierType = ''NOASSERTION''\<rparr>\<rparr>);
         p = p\<lparr>FilesAnalyzed := False\<rparr>;
         p = (if length (App_Checksums a) > 0
              then p\<lparr>PackageChecksums :=
                     Some (rootChecksums (spdx_hash_algos e) (App_Checksums a))\<rparr>
              else p);
         p = (if License_Id (App_License a) \<noteq> []
              then p\<lparr>PackageLicenseConcluded := License_Id (App_License a)\<rparr> else p);
         p = (if License_Expression (App_License a) \<noteq> []
              then p\<lparr>PackageLicenseConcluded := License_Expression (App_License a)\<rparr>
              else p);
         p = (if License_Expression (App_License a) \<noteq> [] \<and> License_Id (App_License a) = []
              then p\<lparr>PackageLicenseDeclared := ''NOASSERTION'',
                     PackageLicenseConcluded := ''NOASSERTION''\<rparr>
              else p);
         p = (if App_Copyright a \<noteq> []
              then p\<lparr>PackageCopyrightText := App_Copyright a\<rparr>
              else p\<lparr>PackageCopyrightText := ''NOASSERTION''\<rparr>);
         p = p\<lparr>PackageDescription := App_Description a\<rparr>;
         p = p\<lparr>PrimaryPackagePurpose := App_PrimaryPurpose a\<rparr>;
         p = p\<lparr>PackageExternalReferences := Some []\<rparr>;
         p = (if App_Purl a \<noteq> []
              then p\<lparr>PackageExternalReferences := Some
                     (the (PackageExternalReferences p) @
                      [Some \<lparr>Category = CategoryPackageManager, RefType = TypePackageManagerPURL,
                             Locator = App_Purl a, ExternalRefComment = []\<rparr>])\<rparr>
              else p);
         p = (if App_CPE a \<noteq> []
              then p\<lparr>PackageExternalReferences := Some
                     (the (PackageExternalReferences p) @
                      [Some \<lparr>Category = CategorySecurity, RefType = TypeSecurityCPE23Type,
                             Locator = App_CPE a, ExternalRefComment = []\<rparr>])\<rparr>
              else p)
     in p)"

section \<open>pkg/assemble/spdx/merge.go: the output document's header\<close>

text \<open>
  The semantic-version library (\<^verbatim>\<open>semver.NewVersion\<close>, \<^verbatim>\<open>LessThan\<close> behind
  \<^verbatim>\<open>semver.Collection\<close>, \<^verbatim>\<open>String\<close>) is a parameter; \<open>None\<close> is the parser's error.
\<close>

record 'v semver =
  NewVersion :: "string \<Rightarrow> 'v option"
  LessThan :: "'v \<Rightarrow> 'v \<Rightarrow> bool"
  String :: "'v \<Rightarrow> string"

text \<open>\<^verbatim>\<open>lo.Uniq\<close>: the first occurrence of every value, in order.\<close>

fun uniqFrom :: "'a list \<Rightarrow> 'a list \<Rightarrow> 'a list" where
  "uniqFrom seen [] = []"
| "uniqFrom seen (x # xs) =
     (if x \<in> set seen then uniqFrom seen xs else x # uniqFrom (x # seen) xs)"

definition Uniq :: "'a list \<Rightarrow> 'a list" where
  "Uniq xs = uniqFrom [] xs"

text \<open>\<^verbatim>\<open>strings.Trim(s, cutset)\<close> and the decimal \<^verbatim>\<open>%d\<close> of a length.\<close>

definition Trim :: "string \<Rightarrow> string \<Rightarrow> string" where
  "Trim s cutset =
     rev (dropWhile (\<lambda>ch. ch \<in> set cutset) (rev (dropWhile (\<lambda>ch. ch \<in> set cutset) s)))"

fun showNat :: "nat \<Rightarrow> string" where
  "showNat n =
     (if n < 10 then [''0123456789'' ! n]
      else showNat (n div 10) @ [''0123456789'' ! (n mod 10)])"

text \<open>
  The loop that parses every candidate (the first failure panics), and
  \<^verbatim>\<open>sort.Sort\<close>, which on the short slices met here is an insertion sort by
  \<^verbatim>\<open>LessThan\<close>.
\<close>

fun parseAll :: "'v semver \<Rightarrow> string list \<Rightarrow> 'v list outcome" where
  "parseAll sv [] = Normal []"
| "parseAll sv (r # rs) =
     (case NewVersion sv r of
        None \<Rightarrow> Panic
      | Some v \<Rightarrow> (case parseAll sv rs of Panic \<Rightarrow> Panic | Normal vs \<Rightarrow> Normal (v # vs)))"

fun insertVersion :: "'v semver \<Rightarrow> 'v \<Rightarrow> 'v list \<Rightarrow> 'v list" where
  "insertVersion sv v [] = [v]"
| "insertVersion sv v (w # ws) =
     (if LessThan sv v w then v # w # ws else w # insertVersion sv v ws)"

definition sortVersions :: "'v semver \<Rightarrow> 'v list \<Rightarrow> 'v list" where
  "sortVersions sv vs = foldl (\<lambda>sorted v. insertVersion sv v sorted) [] vs"

definition licenseListVersionOf :: "document \<Rightarrow> string" where
  "licenseListVersionOf b =
     (case CreationInfo b of
        None \<Rightarrow> []
      | Some ci \<Rightarrow> if LicenseListVersion ci \<noteq> [] then LicenseListVersion ci else [])"

text \<open>Lines 91 to 113 of \<^verbatim>\<open>initOutBom\<close>: the license-list version of the output.\<close>

definition finalLicVersion :: "'v semver \<Rightarrow> document list \<Rightarrow> string outcome" where
  "finalLicVersion sv docs =
    (let lVersions = Uniq (map licenseListVersionOf docs)
     in if length lVersions > 1
        then (case parseAll sv lVersions of
                Panic \<Rightarrow> Panic
              | Normal vs \<Rightarrow> Normal (String sv (hd (sortVersions sv vs))))
        else if length lVersions = 1 \<and> Trim (lVersions ! 0) '' '' \<noteq> []
        then Normal (lVersions ! 0)
        else Normal ''3.19'')"

definition initOutBom :: "'v semver \<Rightarrow> mergeEnv \<Rightarrow> merge \<Rightarrow> merge outcome" where
  "initOutBom sv e m =
    (let a = App (settings m);
         authorCreators = map (\<lambda>author.
            \<lparr>Creator = (if Name author \<noteq> [] \<or> Email author \<noteq> []
                         then Name author @ '' ('' @ Email author @ '')'' else []),
             CreatorType = ''Organization''\<rparr>) (App_Authors a);
         ci = emptyCreationInfo
            \<lparr>Created := merge_now e,
             CreatorComment := ''Generated by sbomasm-'' @ GitVersion e @ '' using '' @
                               showNat (length (ins m)) @ '' sboms'',
             Creators := Some (authorCreators @
                [\<lparr>Creator = ''sbomasm'' @ ''-'' @ GitVersion e, CreatorType = ''Tool''\<rparr>])\<rparr>
     in case finalLicVersion sv (ins m) of
          Panic \<Rightarrow> Panic
        | Normal v \<Rightarrow>
            Normal (m\<lparr>out := (out m)
              \<lparr>SPDXVersion := ''SPDX-2.3'',
               DataLicense := ''CC0-1.0'',
               SPDXIdentifier := ''DOCUMENT'',
               DocumentName := App_Name a,
               DocumentNamespace := composeNamespace e (App_Name a),
               CreationInfo := Some (ci\<lparr>LicenseListVersion := v\<rparr>),
               ExternalDocumentReferences :=
                 concat (map ExternalDocumentReferences (ins m))\<rparr>\<rparr>))"

section \<open>pkg/assemble/spdx/merge.go: the hierarchical merge\<close>

fun isDescribedPackage :: "package option \<Rightarrow> relationship option list \<Rightarrow> bool" where
  "isDescribedPackage None descRels = False"
| "isDescribedPackage (Some p) [] = False"
| "isDescribedPackage (Some p) (None # descRels) = isDescribedPackage (Some p) descRels"
| "isDescribedPackage (Some p) (Some rel # descRels) =
     (if ElementRefID (RefB rel) = PackageSPDXIdentifier p then True
      else isDescribedPackage (Some p) descRels)"

text \<open>The two \<^verbatim>\<open>lo.Filter\<close> predicates on relationships: both reject a nil entry first.\<close>

definition isDescribesRel :: "relationship option \<Rightarrow> bool" where
  "isDescribesRel rel =
     (case rel of None \<Rightarrow> False | Some r \<Rightarrow> Relationship r = TypeRelationshipDescribe)"

definition isOtherRel :: "relationship option \<Rightarrow> bool" where
  "isOtherRel rel =
     (case rel of None \<Rightarrow> False | Some r \<Rightarrow> Relationship r \<noteq> TypeRelationshipDescribe)"

text \<open>The body of \<^verbatim>\<open>lo.ForEach(doc.Relationships, ...)\<close> for one relationship.\<close>

definition rewriteRel :: "string \<Rightarrow> string \<Rightarrow> relationship option \<Rightarrow> relationship option" where
  "rewriteRel old new rel =
     (case rel of
        None \<Rightarrow> None
      | Some r \<Rightarrow>
          (let r = (if ElementRefID (RefA r) = old
                    then r\<lparr>RefA := (RefA r)\<lparr>ElementRefID := new\<rparr>\<rparr> else r);
               r = (if ElementRefID (RefB r) = old
                    then r\<lparr>RefB := (RefB r)\<lparr>ElementRefID := new\<rparr>\<rparr> else r)
           in Some r))"

text \<open>
  The body of the loop over \<^verbatim>\<open>doc.Packages\<close>. The loop's state is the number of
  identifiers drawn so far, the output packages, the output relationships and the
  relationships of the input document, which \<^verbatim>\<open>lo.ForEach\<close> rewrites in place.
  \<^verbatim>\<open>descRels\<close> is a slice of the same pointers as \<^verbatim>\<open>doc.Relationships\<close>, so
  \<^verbatim>\<open>isDescribedPackage\<close> sees the endpoints as rewritten so far: the model filters
  the current relationships (the kind of a relationship never changes). When the clone
  fails, the warning dereferences \<^verbatim>\<open>pkg\<close>; a described package whose clone is nil
  panics at the assignment of the new identifier.
\<close>

type_synonym ingestState =
  "nat \<times> package option list \<times> relationship option list \<times> relationship option list"

fun ingestPackage ::
  "mergeEnv \<Rightarrow> string \<Rightarrow> package option \<Rightarrow> ingestState \<Rightarrow> ingestState outcome" where
  "ingestPackage e pcId pkg (n, pkgs, deps, rels) =
     (let isDescPkg = isDescribedPackage pkg (filter isDescribesRel rels)
      in case cloneComp e pkg of
           None \<Rightarrow> (case pkg of None \<Rightarrow> Panic | Some p \<Rightarrow> Normal (n, pkgs, deps, rels))
         | Some cPkg \<Rightarrow>
             if isDescPkg
             then (case cPkg of
                None \<Rightarrow> Panic
              | Some c \<Rightarrow>
                 (case pkg of
                    None \<Rightarrow> Panic
                  | Some p \<Rightarrow>
                     (let c = c\<lparr>PackageSPDXIdentifier := ''Package-'' @ uuid_New e n\<rparr>
                      in Normal
                          (Suc n, pkgs @ [Some c],
                           deps @ [Some \<lparr>RefA = MakeDocElementID [] pcId,
                                         RefB = MakeDocElementID [] (PackageSPDXIdentifier c),
                                         Relationship = TypeRelationshipContains,
                                         RelationshipComment = []\<rparr>],
                           map (rewriteRel (PackageSPDXIdentifier p) (PackageSPDXIdentifier c))
                             rels))))
             else Normal (n, pkgs @ [cPkg], deps, rels))"

declare ingestPackage.simps [simp del]

fun ingestPackages ::
  "mergeEnv \<Rightarrow> string \<Rightarrow> package option list \<Rightarrow> ingestState \<Rightarrow> ingestState outcome" where
  "ingestPackages e pcId [] st = Normal st"
| "ingestPackages e pcId (pkg # rest) st =
     (case ingestPackage e pcId pkg st of
        Panic \<Rightarrow> Panic
      | Normal st' \<Rightarrow> ingestPackages e pcId rest st')"

text \<open>
  The loop over \<^verbatim>\<open>m.in\<close>: every input document comes back with its relationships as
  the package loop left them.
\<close>

fun ingestDocs ::
  "mergeEnv \<Rightarrow> string \<Rightarrow> document list \<Rightarrow>
   nat \<times> package option list \<times> relationship option list \<Rightarrow>
   (document list \<times> nat \<times> package option list \<times> relationship option list) outcome" where
  "ingestDocs e pcId [] st = Normal ([], st)"
| "ingestDocs e pcId (doc # docs) (n, pkgs, deps) =
     (case ingestPackages e pcId (Packages doc) (n, pkgs, deps, Relationships doc) of
        Panic \<Rightarrow> Panic
      | Normal (n', pkgs', deps', rels') \<Rightarrow>
         (case ingestDocs e pcId docs (n', pkgs', deps') of
            Panic \<Rightarrow> Panic
          | Normal (docs', st') \<Rightarrow> Normal (doc\<lparr>Relationships := rels'\<rparr> # docs', st')))"

text \<open>
  \<^verbatim>\<open>hierarchicalMerge\<close> up to the call of \<^verbatim>\<open>writeSBOM\<close> (which serializes \<^verbatim>\<open>m.out\<close>
  and changes nothing): the result is the merge state, with the inputs as the
  function leaves them. \<open>uuid_New e k\<close> is the string of the \<open>k\<close>-th draw made here.
\<close>

definition hierarchicalMerge :: "mergeEnv \<Rightarrow> merge \<Rightarrow> merge outcome" where
  "hierarchicalMerge e m =
    (let pc = setupPrimaryComp e m;
         pkgs = [Some pc];
         deps = [] @ [Some \<lparr>RefA = MakeDocElementID [] ''DOCUMENT'',
                            RefB = MakeDocElementID [] (PackageSPDXIdentifier pc),
                            Relationship = TypeRelationshipDescribe,
                            RelationshipComment = []\<rparr>]
     in case ingestDocs e (PackageSPDXIdentifier pc) (ins m) (0, pkgs, deps) of
          Panic \<Rightarrow> Panic
        | Normal (docs, n, pkgs, deps) \<Rightarrow>
           (let deps = deps @ concat (map (\<lambda>doc. filter isOtherRel (Relationships doc)) docs);
                files = concat (map Files docs);
                otherLics = concat (map OtherLicenses docs)
            in Normal (m\<lparr>ins := docs,
                         out := (out m)\<lparr>Packages := pkgs, Files := files,
                                        Relationships := deps, OtherLicenses := otherLics\<rparr>\<rparr>)))"

section \<open>pkg/edit/spdx_edit.go: the edit engine\<close>

datatype error = errNoConfiguration | errNotSupported | errInvalidInput

record paramTuple =
  p_name :: string
  p_value :: string

record searchParams =
  subject :: string

text \<open>
  \<^verbatim>\<open>configParams\<close> is declared outside spdx_edit.go. The record has the fields the
  handlers read (\<^verbatim>\<open>d.c.name\<close> is \<open>c_name\<close>, and so on) and, as boolean fields, what
  its methods \<^verbatim>\<open>shouldName()\<close>, ..., \<^verbatim>\<open>onMissing()\<close>, \<^verbatim>\<open>onAppend()\<close> return.
  The overwrite policy is the case where neither \<open>onMissing\<close> nor \<open>onAppend\<close> holds.
\<close>

record configParams =
  search :: searchParams
  c_name :: string
  c_version :: string
  c_supplier :: paramTuple
  c_authors :: "paramTuple list"
  c_purl :: string
  c_cpe :: string
  c_copyright :: string
  c_description :: string
  c_repository :: string
  c_typ :: string
  c_lifecycles :: "string list"
  shouldName :: bool
  shouldVersion :: bool
  shouldSupplier :: bool
  shouldAuthors :: bool
  shouldPurl :: bool
  shouldCpe :: bool
  shouldLicenses :: bool
  shouldHashes :: bool
  shouldCopyRight :: bool
  shouldLifeCycle :: bool
  shouldDescription :: bool
  shouldRepository :: bool
  shouldTyp :: bool
  onMissing :: bool
  onAppend :: bool

text \<open>
  What spdx_edit.go calls and does not define: \<^verbatim>\<open>spdxFindPkg\<close> (\<open>None\<close> is its error
  return), \<^verbatim>\<open>spdxConstructLicenses\<close>, \<^verbatim>\<open>spdxConstructHashes\<close>,
  \<^verbatim>\<open>spdxConstructTools\<close>, the table \<^verbatim>\<open>spdx_strings_to_types\<close> (a Go map, \<^verbatim>\<open>""\<close>
  for a missing key) and the clock \<^verbatim>\<open>utcNowTime()\<close> (the value it returns at this
  call). They are parameters of the model, taken as pure functions of their arguments.
\<close>

record editEnv =
  spdxFindPkg :: "document \<Rightarrow> configParams \<Rightarrow> bool \<Rightarrow> package option"
  spdxConstructLicenses :: "document \<Rightarrow> configParams \<Rightarrow> string"
  spdxConstructHashes :: "document \<Rightarrow> configParams \<Rightarrow> checksum list option"
  spdxConstructTools :: "document \<Rightarrow> configParams \<Rightarrow> creator list"
  spdx_strings_to_types :: "string \<Rightarrow> string"
  utcNowTime :: string

text \<open>
  \<^verbatim>\<open>spdxEditDoc\<close>. In Go \<^verbatim>\<open>d.pkg\<close> points to a package of \<^verbatim>\<open>d.bom\<close>; the handlers
  reach that package only through \<^verbatim>\<open>d.pkg\<close> and never read \<^verbatim>\<open>d.bom.Packages\<close>, so the
  model keeps the pointee in \<open>pkg\<close> (\<open>None\<close> is the nil pointer) beside the document.
\<close>

record spdxEditDoc =
  bom :: document
  pkg :: "package option"
  cfg :: configParams

definition SBOMASM :: string where
  "SBOMASM = ''sbomasm''"

definition SBOMASM_VERSION :: string where
  "SBOMASM_VERSION = ''0.1.9''"

definition NewSpdxEditDoc :: "editEnv \<Rightarrow> document \<Rightarrow> configParams \<Rightarrow> spdxEditDoc" where
  "NewSpdxEditDoc e b c =
    (let d = \<lparr>bom = b, pkg = None, cfg = c\<rparr>;
         d = (if subject (search c) = ''primary-component''
              then (case spdxFindPkg e b c True of Some p \<Rightarrow> d\<lparr>pkg := Some p\<rparr> | None \<Rightarrow> d)
              else d);
         d = (if subject (search c) = ''component-name-version''
              then (case spdxFindPkg e b c False of Some p \<Rightarrow> d\<lparr>pkg := Some p\<rparr> | None \<Rightarrow> d)
              else d)
     in d)"

subsection \<open>Strings\<close>

text \<open>
  \<^verbatim>\<open>strings.ToLower\<close> on the ASCII letters (other bytes are kept),
  \<^verbatim>\<open>strings.HasPrefix\<close> and \<^verbatim>\<open>strings.Join\<close>.
\<close>

definition toLowerChar :: "char \<Rightarrow> char" where
  "toLowerChar ch =
     (case map_of (zip ''ABCDEFGHIJKLMNOPQRSTUVWXYZ'' ''abcdefghijklmnopqrstuvwxyz'') ch of
        None \<Rightarrow> ch
      | Some l \<Rightarrow> l)"

definition ToLower :: "string \<Rightarrow> string" where
  "ToLower s = map toLowerChar s"

definition HasPrefix :: "string \<Rightarrow> string \<Rightarrow> bool" where
  "HasPrefix s p = (take (length p) s = p)"

fun Join :: "string list \<Rightarrow> string \<Rightarrow> string" where
  "Join [] sep = []"
| "Join [x] sep = x"
| "Join (x # y # ys) sep = x @ sep @ Join (y # ys) sep"

subsection \<open>Scalar component fields\<close>

type_synonym handlerResult = "(error option \<times> spdxEditDoc) outcome"

definition name :: "spdxEditDoc \<Rightarrow> handlerResult" where
  "name d =
    (if \<not> shouldName (cfg d) then Normal (Some errNoConfiguration, d)
     else if subject (search (cfg d)) = ''document'' then Normal (Some errNotSupported, d)
     else (case pkg d of
        None \<Rightarrow> Panic
      | Some p \<Rightarrow>
          if onMissing (cfg d)
          then (if PackageName p = []
                then Normal (None, d\<lparr>pkg := Some (p\<lparr>PackageName := c_name (cfg d)\<rparr>)\<rparr>)
                else Normal (None, d))
          else Normal (None, d\<lparr>pkg := Some (p\<lparr>PackageName := c_name (cfg d)\<rparr>)\<rparr>)))"

definition version :: "spdxEditDoc \<Rightarrow> handlerResult" where
  "version d =
    (if \<not> shouldVersion (cfg d) then Normal (Some errNoConfiguration, d)
     else if subject (search (cfg d)) = ''document'' then Normal (Some errNotSupported, d)
     else (case pkg d of
        None \<Rightarrow> Panic
      | Some p \<Rightarrow>
          if onMissing (cfg d)
          then (if PackageVersion p = []
                then Normal (None, d\<lparr>pkg := Some (p\<lparr>PackageVersion := c_version (cfg d)\<rparr>)\<rparr>)
                else Normal (None, d))
          else Normal (None, d\<lparr>pkg := Some (p\<lparr>PackageVersion := c_version (cfg d)\<rparr>)\<rparr>)))"

definition supplier :: "spdxEditDoc \<Rightarrow> handlerResult" where
  "supplier d =
    (if \<not> shouldSupplier (cfg d) then Normal (Some errNoConfiguration, d)
     else if subject (search (cfg d)) = ''document'' then Normal (Some errNotSupported, d)
     else (let s = \<lparr>Supplier = p_name (c_supplier (cfg d)) @ '' ('' @
                               p_value (c_supplier (cfg d)) @ '')'',
                    SupplierType = ''Organization''\<rparr>
       in case pkg d of
        None \<Rightarrow> Panic
      | Some p \<Rightarrow>
          if onMissing (cfg d)
          then (if PackageSupplier p = None
                then Normal (None, d\<lparr>pkg := Some (p\<lparr>PackageSupplier := Some s\<rparr>)\<rparr>)
                else Normal (None, d))
          else Normal (None, d\<lparr>pkg := Some (p\<lparr>PackageSupplier := Some s\<rparr>)\<rparr>)))"

definition copyright :: "spdxEditDoc \<Rightarrow> handlerResult" where
  "copyright d =
    (if \<not> shouldCopyRight (cfg d) then Normal (Some errNoConfiguration, d)
     else if subject (search (cfg d)) = ''document'' then Normal (Some errNotSupported, d)
     else (case pkg d of
        None \<Rightarrow> Panic
      | Some p \<Rightarrow>
          if onMissing (cfg d)
          then (if PackageCopyrightText p = []
                then Normal (None, d\<lparr>pkg := Some (p\<lparr>PackageCopyrightText := c_copyright (cfg d)\<rparr>)\<rparr>)
                else Normal (None, d))
          else Normal (None, d\<lparr>pkg := Some (p\<lparr>PackageCopyrightText := c_copyright (cfg d)\<rparr>)\<rparr>)))"

definition repository :: "spdxEditDoc \<Rightarrow> handlerResult" where
  "repository d =
    (if \<not> shouldRepository (cfg d) then Normal (Some errNoConfiguration, d)
     else if subject (search (cfg d)) = ''document'' then Normal (Some errNotSupported, d)
     else (case pkg d of
        None \<Rightarrow> Panic
      | Some p \<Rightarrow>
          if onMissing (cfg d)
          then (if PackageDownloadLocation p = []
                then Normal (None, d\<lparr>pkg := Some (p\<lparr>PackageDownloadLocation := c_repository (cfg d)\<rparr>)\<rparr>)
                else Normal (None, d))
          else Normal (None, d\<lparr>pkg := Some (p\<lparr>PackageDownloadLocation := c_repository (cfg d)\<rparr>)\<rparr>)))"

definition typ' :: "editEnv \<Rightarrow> spdxEditDoc \<Rightarrow> handlerResult" where
  "typ' e d =
    (if \<not> shouldTyp (cfg d) then Normal (Some errNoConfiguration, d)
     else if subject (search (cfg d)) = ''document'' then Normal (Some errNotSupported, d)
     else (let purpose = spdx_strings_to_types e (ToLower (c_typ (cfg d)))
       in if purpose = [] then Normal (Some errInvalidInput, d)
          else (case pkg d of
             None \<Rightarrow> Panic
           | Some p \<Rightarrow>
               if onMissing (cfg d)
               then (if PrimaryPackagePurpose p = []
                     then Normal (None, d\<lparr>pkg := Some (p\<lparr>PrimaryPackagePurpose := purpose\<rparr>)\<rparr>)
                     else Normal (None, d))
               else Normal (None, d\<lparr>pkg := Some (p\<lparr>PrimaryPackagePurpose := purpose\<rparr>)\<rparr>))))"

subsection \<open>Fields with a document scope\<close>

definition description :: "spdxEditDoc \<Rightarrow> handlerResult" where
  "description d =
    (if \<not> shouldDescription (cfg d) then Normal (Some errNoConfiguration, d)
     else if onMissing (cfg d)
     then (if subject (search (cfg d)) = ''document''
           then (if DocumentComment (bom d) = []
                 then Normal (None, d\<lparr>bom := (bom d)\<lparr>DocumentComment := c_description (cfg d)\<rparr>\<rparr>)
                 else Normal (None, d))
           else (case pkg d of
              None \<Rightarrow> Panic
            | Some p \<Rightarrow>
                if PackageDescription p = []
                then Normal (None, d\<lparr>pkg := Some (p\<lparr>PackageDescription := c_description (cfg d)\<rparr>)\<rparr>)
                else Normal (None, d)))
     else (if subject (search (cfg d)) = ''document''
           then Normal (None, d\<lparr>bom := (bom d)\<lparr>DocumentComment := c_description (cfg d)\<rparr>\<rparr>)
           else (case pkg d of
              None \<Rightarrow> Panic
            | Some p \<Rightarrow>
                Normal (None, d\<lparr>pkg := Some (p\<lparr>PackageDescription := c_description (cfg d)\<rparr>)\<rparr>))))"

definition licenses :: "editEnv \<Rightarrow> spdxEditDoc \<Rightarrow> handlerResult" where
  "licenses e d =
    (if \<not> shouldLicenses (cfg d) then Normal (Some errNoConfiguration, d)
     else (let license = spdxConstructLicenses e (bom d) (cfg d)
       in if onMissing (cfg d)
          then (if subject (search (cfg d)) = ''document''
                then (if DataLicense (bom d) = []
                      then Normal (None, d\<lparr>bom := (bom d)\<lparr>DataLicense := license\<rparr>\<rparr>)
                      else Normal (None, d))
                else (case pkg d of
                   None \<Rightarrow> Panic
                 | Some p \<Rightarrow>
                     if PackageLicenseConcluded p = []
                     then Normal (None, d\<lparr>pkg := Some (p\<lparr>PackageLicenseConcluded := license\<rparr>)\<rparr>)
                     else Normal (None, d)))
          else (if subject (search (cfg d)) = ''document''
                then Normal (None, d\<lparr>bom := (bom d)\<lparr>DataLicense := license\<rparr>\<rparr>)
                else (case pkg d of
                   None \<Rightarrow> Panic
                 | Some p \<Rightarrow>
                     Normal (None, d\<lparr>pkg := Some (p\<lparr>PackageLicenseConcluded := license\<rparr>)\<rparr>)))))"

definition lifeCycles :: "spdxEditDoc \<Rightarrow> handlerResult" where
  "lifeCycles d =
    (if \<not> shouldLifeCycle (cfg d) then Normal (Some errNoConfiguration, d)
     else if subject (search (cfg d)) \<noteq> ''document'' then Normal (Some errNotSupported, d)
     else (let lifecycles = ''lifecycle: '' @ Join (c_lifecycles (cfg d)) '','';
               ci = (case CreationInfo (bom d) of None \<Rightarrow> emptyCreationInfo | Some ci \<Rightarrow> ci)
       in if onMissing (cfg d)
          then (if CreatorComment ci = []
                then Normal (None, d\<lparr>bom := (bom d)\<lparr>CreationInfo :=
                                          Some (ci\<lparr>CreatorComment := lifecycles\<rparr>)\<rparr>\<rparr>)
                else Normal (None, d\<lparr>bom := (bom d)\<lparr>CreationInfo := Some ci\<rparr>\<rparr>))
          else Normal (None, d\<lparr>bom := (bom d)\<lparr>CreationInfo :=
                                    Some (ci\<lparr>CreatorComment := lifecycles\<rparr>)\<rparr>\<rparr>)))"

definition timeStamp :: "editEnv \<Rightarrow> spdxEditDoc \<Rightarrow> handlerResult" where
  "timeStamp e d =
    (let ci = (case CreationInfo (bom d) of None \<Rightarrow> emptyCreationInfo | Some ci \<Rightarrow> ci)
     in Normal (None, d\<lparr>bom := (bom d)\<lparr>CreationInfo := Some (ci\<lparr>Created := utcNowTime e\<rparr>)\<rparr>\<rparr>))"

definition authors :: "spdxEditDoc \<Rightarrow> handlerResult" where
  "authors d =
    (if \<not> shouldAuthors (cfg d) then Normal (Some errNoConfiguration, d)
     else if subject (search (cfg d)) \<noteq> ''document'' then Normal (Some errNotSupported, d)
     else (let as = map (\<lambda>author. \<lparr>Creator = p_name author @ '' ('' @ p_value author @ '')'',
                                    CreatorType = ''Person''\<rparr>) (c_authors (cfg d))
       in if onMissing (cfg d)
          then (case CreationInfo (bom d) of
             None \<Rightarrow> Normal (None, d\<lparr>bom := (bom d)\<lparr>CreationInfo :=
                                   Some (emptyCreationInfo\<lparr>Creators := Some as\<rparr>)\<rparr>\<rparr>)
           | Some ci \<Rightarrow>
               if Creators ci = None
               then Normal (None, d\<lparr>bom := (bom d)\<lparr>CreationInfo :=
                                     Some (ci\<lparr>Creators := Some as\<rparr>)\<rparr>\<rparr>)
               else Normal (None, d))
          else if onAppend (cfg d)
          then (case CreationInfo (bom d) of
             None \<Rightarrow> Normal (None, d\<lparr>bom := (bom d)\<lparr>CreationInfo :=
                                   Some (emptyCreationInfo\<lparr>Creators := Some as\<rparr>)\<rparr>\<rparr>)
           | Some ci \<Rightarrow>
               (case Creators ci of
                  None \<Rightarrow> Normal (None, d\<lparr>bom := (bom d)\<lparr>CreationInfo :=
                                        Some (ci\<lparr>Creators := Some as\<rparr>)\<rparr>\<rparr>)
                | Some cs \<Rightarrow> Normal (None, d\<lparr>bom := (bom d)\<lparr>CreationInfo :=
                                        Some (ci\<lparr>Creators := Some (cs @ as)\<rparr>)\<rparr>\<rparr>)))
          else (case CreationInfo (bom d) of
             None \<Rightarrow> Normal (None, d\<lparr>bom := (bom d)\<lparr>CreationInfo :=
                                   Some (emptyCreationInfo\<lparr>Creators := Some as\<rparr>)\<rparr>\<rparr>)
           | Some ci \<Rightarrow> Normal (None, d\<lparr>bom := (bom d)\<lparr>CreationInfo :=
                                   Some (ci\<lparr>Creators := Some as\<rparr>)\<rparr>\<rparr>))))"

subsection \<open>External references: purl and cpe\<close>

text \<open>The elements of a slice that may be nil (\<^verbatim>\<open>range\<close> and \<^verbatim>\<open>append\<close> accept nil).\<close>

definition sliceOf :: "'a list option \<Rightarrow> 'a list" where
  "sliceOf s = (case s of None \<Rightarrow> [] | Some xs \<Rightarrow> xs)"

text \<open>
  The scan \<^verbatim>\<open>for _, ref := range ... { if ref.RefType == k { found = true } }\<close>: it
  visits every entry and dereferences each, so a nil entry panics.
\<close>

fun foundRefType :: "string \<Rightarrow> packageExternalReference option list \<Rightarrow> bool outcome" where
  "foundRefType k [] = Normal False"
| "foundRefType k (None # rs) = Panic"
| "foundRefType k (Some r # rs) =
     (case foundRefType k rs of Panic \<Rightarrow> Panic | Normal b \<Rightarrow> Normal (RefType r = k \<or> b))"

text \<open>\<^verbatim>\<open>lo.Reject\<close> with a predicate that reads the entry's \<^verbatim>\<open>RefType\<close>.\<close>

fun Reject ::
  "(packageExternalReference \<Rightarrow> bool) \<Rightarrow> packageExternalReference option list \<Rightarrow>
   packageExternalReference option list outcome" where
  "Reject P [] = Normal []"
| "Reject P (None # rs) = Panic"
| "Reject P (Some r # rs) =
     (case Reject P rs of Panic \<Rightarrow> Panic
      | Normal ys \<Rightarrow> Normal (if P r then ys else Some r # ys))"

definition purl :: "spdxEditDoc \<Rightarrow> handlerResult" where
  "purl d =
    (if \<not> shouldPurl (cfg d) then Normal (Some errNoConfiguration, d)
     else if subject (search (cfg d)) = ''document'' then Normal (Some errNotSupported, d)
     else (let purl = \<lparr>Category = ''PACKAGE-MANAGER'', RefType = ''purl'',
                       Locator = c_purl (cfg d), ExternalRefComment = []\<rparr>
       in case pkg d of
        None \<Rightarrow> Panic
      | Some p \<Rightarrow>
         (case foundRefType ''purl'' (sliceOf (PackageExternalReferences p)) of
            Panic \<Rightarrow> Panic
          | Normal foundPurl \<Rightarrow>
              if onMissing (cfg d)
              then (if \<not> foundPurl
                    then Normal (None, d\<lparr>pkg := Some (p\<lparr>PackageExternalReferences :=
                           Some (sliceOf (PackageExternalReferences p) @ [Some purl])\<rparr>)\<rparr>)
                    else Normal (None, d))
              else if onAppend (cfg d)
              then (if \<not> foundPurl
                    then Normal (None, d\<lparr>pkg := Some (p\<lparr>PackageExternalReferences :=
                           Some (sliceOf (PackageExternalReferences p) @ [Some purl])\<rparr>)\<rparr>)
                    else Normal (None, d\<lparr>pkg := Some (p\<lparr>PackageExternalReferences :=
                           Some (sliceOf (PackageExternalReferences p) @ [Some purl])\<rparr>)\<rparr>))
              else (case PackageExternalReferences p of
                 None \<Rightarrow> Normal (None, d\<lparr>pkg := Some (p\<lparr>PackageExternalReferences :=
                           Some ([] @ [Some purl])\<rparr>)\<rparr>)
               | Some refs \<Rightarrow>
                  (case Reject (\<lambda>x. ToLower (RefType x) = ''purl'') refs of
                     Panic \<Rightarrow> Panic
                   | Normal extRef \<Rightarrow>
                       Normal (None, d\<lparr>pkg := Some (p\<lparr>PackageExternalReferences :=
                           Some (extRef @ [Some purl])\<rparr>)\<rparr>))))))"

definition cpe :: "spdxEditDoc \<Rightarrow> handlerResult" where
  "cpe d =
    (if \<not> shouldCpe (cfg d) then Normal (Some errNoConfiguration, d)
     else if subject (search (cfg d)) = ''document'' then Normal (Some errNotSupported, d)
     else (let cpe = \<lparr>Category = ''SECURITY'', RefType = ''cpe23Type'',
                      Locator = c_cpe (cfg d), ExternalRefComment = []\<rparr>
       in case pkg d of
        None \<Rightarrow> Panic
      | Some p \<Rightarrow>
         (case foundRefType ''cpe23Type'' (sliceOf (PackageExternalReferences p)) of
            Panic \<Rightarrow> Panic
          | Normal foundCpe \<Rightarrow>
              if onMissing (cfg d)
              then (if \<not> foundCpe
                    then Normal (None, d\<lparr>pkg := Some (p\<lparr>PackageExternalReferences :=
                           Some (sliceOf (PackageExternalReferences p) @ [Some cpe])\<rparr>)\<rparr>)
                    else Normal (None, d))
              else if onAppend (cfg d)
              then (if \<not> foundCpe
                    then Normal (None, d\<lparr>pkg := Some (p\<lparr>PackageExternalReferences :=
                           Some (sliceOf (PackageExternalReferences p) @ [Some cpe])\<rparr>)\<rparr>)
                    else Normal (None, d\<lparr>pkg := Some (p\<lparr>PackageExternalReferences :=
                           Some (sliceOf (PackageExternalReferences p) @ [Some cpe])\<rparr>)\<rparr>))
              else (case PackageExternalReferences p of
                 None \<Rightarrow> Normal (None, d\<lparr>pkg := Some (p\<lparr>PackageExternalReferences :=
                           Some ([] @ [Some cpe])\<rparr>)\<rparr>)
               | Some refs \<Rightarrow>
                  (case Reject (\<lambda>x. ToLower (RefType x) = ''cpe23Type'') refs of
                     Panic \<Rightarrow> Panic
                   | Normal extRef \<Rightarrow>
                       Normal (None, d\<lparr>pkg := Some (p\<lparr>PackageExternalReferences :=
                           Some (extRef @ [Some cpe])\<rparr>)\<rparr>))))))"

subsection \<open>Checksums\<close>

definition hashes :: "editEnv \<Rightarrow> spdxEditDoc \<Rightarrow> handlerResult" where
  "hashes e d =
    (if \<not> shouldHashes (cfg d) then Normal (Some errNoConfiguration, d)
     else if subject (search (cfg d)) = ''document'' then Normal (Some errNotSupported, d)
     else (let hs = spdxConstructHashes e (bom d) (cfg d)
       in case pkg d of
        None \<Rightarrow> Panic
      | Some p \<Rightarrow>
          if onMissing (cfg d)
          then (if PackageChecksums p = None
                then Normal (None, d\<lparr>pkg := Some (p\<lparr>PackageChecksums := hs\<rparr>)\<rparr>)
                else Normal (None, d))
          else if onAppend (cfg d)
          then (case PackageChecksums p of
                  None \<Rightarrow> Normal (None, d\<lparr>pkg := Some (p\<lparr>PackageChecksums := hs\<rparr>)\<rparr>)
                | Some cs \<Rightarrow> Normal (None, d\<lparr>pkg := Some (p\<lparr>PackageChecksums :=
                                        Some (cs @ sliceOf hs)\<rparr>)\<rparr>))
          else Normal (None, d\<lparr>pkg := Some (p\<lparr>PackageChecksums := hs\<rparr>)\<rparr>)))"

subsection \<open>Tools\<close>

definition removeCreator :: "creator list \<Rightarrow> string \<Rightarrow> creator list" where
  "removeCreator creators creatorName =
     filter (\<lambda>c. \<not> HasPrefix (Creator c) creatorName) creators"

fun creatorExists :: "creator list \<Rightarrow> creator \<Rightarrow> bool" where
  "creatorExists [] cr = False"
| "creatorExists (c # cs) cr =
     (if Creator c = Creator cr \<and> CreatorType c = CreatorType cr then True
      else creatorExists cs cr)"

text \<open>
  \<^verbatim>\<open>spdxUniqueCreators\<close>: the set of display strings is taken from \<^verbatim>\<open>existing\<close> once,
  before the second loop, and is not extended while new creators are appended.
\<close>

definition spdxUniqueCreators :: "creator list \<Rightarrow> creator list \<Rightarrow> creator list" where
  "spdxUniqueCreators existing newCreators =
     existing @ filter (\<lambda>c. Creator c \<notin> set (map Creator existing)) newCreators"

text \<open>The loop of the missing policy over \<^verbatim>\<open>newTools\<close>.\<close>

fun addMissingTools :: "creator list \<Rightarrow> creator list \<Rightarrow> creator list" where
  "addMissingTools cs [] = cs"
| "addMissingTools cs (tool # ts) =
     addMissingTools (if \<not> creatorExists cs tool then spdxUniqueCreators cs [tool] else cs) ts"

definition stampSelf :: "creator list \<Rightarrow> creator \<Rightarrow> creator list" where
  "stampSelf cs sbomasmTool =
     (if \<not> creatorExists cs sbomasmTool then spdxUniqueCreators cs [sbomasmTool] else cs)"

text \<open>
  The parts of \<^verbatim>\<open>tools\<close>: the document with its creation info and creator list made
  non-nil (lines 367 to 373), the creator list of a document, the search for a configured
  tool whose display string starts with the tool's name and the self entry it selects
  (lines 362 to 365 and 377 to 384).
\<close>

definition ensureCreators :: "document \<Rightarrow> document" where
  "ensureCreators b =
    (let ci = (case CreationInfo b of None \<Rightarrow> emptyCreationInfo | Some ci \<Rightarrow> ci);
         ci = (if Creators ci = None then ci\<lparr>Creators := Some []\<rparr> else ci)
     in b\<lparr>CreationInfo := Some ci\<rparr>)"

definition creatorsOf :: "document \<Rightarrow> creator list" where
  "creatorsOf b = (case CreationInfo b of None \<Rightarrow> [] | Some ci \<Rightarrow> sliceOf (Creators ci))"

definition setCreators :: "document \<Rightarrow> creator list \<Rightarrow> document" where
  "setCreators b cs =
     b\<lparr>CreationInfo := Some
         ((case CreationInfo b of None \<Rightarrow> emptyCreationInfo | Some ci \<Rightarrow> ci)
            \<lparr>Creators := Some cs\<rparr>)\<rparr>"

definition explicitSbomasm :: "creator list \<Rightarrow> creator option" where
  "explicitSbomasm newTools = find (\<lambda>tool. HasPrefix (Creator tool) SBOMASM) newTools"

definition sbomasmToolOf :: "creator list \<Rightarrow> creator" where
  "sbomasmToolOf newTools =
     (case explicitSbomasm newTools of
        None \<Rightarrow> \<lparr>Creator = SBOMASM @ ''-'' @ SBOMASM_VERSION, CreatorType = ''Tool''\<rparr>
      | Some tool \<Rightarrow> tool)"

definition tools :: "editEnv \<Rightarrow> spdxEditDoc \<Rightarrow> handlerResult" where
  "tools e d =
    (let b = ensureCreators (bom d);
         newTools = spdxConstructTools e b (cfg d);
         sbomasmTool = sbomasmToolOf newTools;
         cs = creatorsOf b;
         cs = (if explicitSbomasm newTools \<noteq> None then removeCreator cs SBOMASM else cs);
         cs = (if onMissing (cfg d) then stampSelf (addMissingTools cs newTools) sbomasmTool
               else if onAppend (cfg d)
               then stampSelf (spdxUniqueCreators cs newTools) sbomasmTool
               else stampSelf (spdxUniqueCreators cs newTools) sbomasmTool)
     in Normal (None, d\<lparr>bom := setCreators b cs\<rparr>))"

subsection \<open>The update loop\<close>

definition updateFuncs :: "editEnv \<Rightarrow> (string \<times> (spdxEditDoc \<Rightarrow> handlerResult)) list" where
  "updateFuncs e =
     [(''name'', name), (''version'', version), (''supplier'', supplier),
      (''authors'', authors), (''purl'', purl), (''cpe'', cpe),
      (''licenses'', licenses e), (''hashes'', hashes e), (''tools'', tools e),
      (''copyright'', copyright), (''lifeCycles'', lifeCycles),
      (''description'', description), (''repository'', repository),
      (''type'', typ' e), (''timeStamp'', timeStamp e)]"

text \<open>
  The loop of \<^verbatim>\<open>update\<close>: each handler runs on the state the previous one left; a
  not-supported outcome is logged (the log holds the field names), every other error is
  dropped; a panic of a handler ends the loop and the call.
\<close>

fun runUpdateFuncs ::
  "(string \<times> (spdxEditDoc \<Rightarrow> handlerResult)) list \<Rightarrow> string list \<Rightarrow> spdxEditDoc \<Rightarrow>
   (string list \<times> spdxEditDoc) outcome" where
  "runUpdateFuncs [] lg d = Normal (lg, d)"
| "runUpdateFuncs (item # items) lg d =
     (case snd item d of
        Panic \<Rightarrow> Panic
      | Normal (err, d') \<Rightarrow>
          runUpdateFuncs items
            (if err = Some errNotSupported then lg @ [fst item] else lg) d')"

definition update :: "editEnv \<Rightarrow> spdxEditDoc \<Rightarrow> (string list \<times> spdxEditDoc) outcome" where
  "update e d = runUpdateFuncs (updateFuncs e) [] d"

section \<open>Notions used to state the properties\<close>

fun mapOutcome :: "('a \<Rightarrow> 'b) \<Rightarrow> 'a outcome \<Rightarrow> 'b outcome" where
  "mapOutcome f Panic = Panic"
| "mapOutcome f (Normal x) = Normal (f x)"

text \<open>An input document without the nil entries of its relationship list.\<close>

definition notNil :: "'a option \<Rightarrow> bool" where
  "notNil x = (x \<noteq> None)"

definition dropNilRels :: "document \<Rightarrow> document" where
  "dropNilRels doc = doc\<lparr>Relationships := filter notNil (Relationships doc)\<rparr>"

definition dropNilState :: "ingestState \<Rightarrow> ingestState" where
  "dropNilState st =
     (case st of (n, pkgs, deps, rels) \<Rightarrow> (n, pkgs, deps, filter notNil rels))"







text \<open>A relationship between two elements of the document itself.\<close>

definition relOf :: "string \<Rightarrow> string \<Rightarrow> string \<Rightarrow> relationship" where
  "relOf a kind b =
     \<lparr>RefA = MakeDocElementID [] a, RefB = MakeDocElementID [] b,
      Relationship = kind, RelationshipComment = []\<rparr>"

text \<open>
  The rewriting as the specification words it: every described package of a document
  gets a new identifier, and every endpoint that equals the original identifier of a
  described package is replaced by the new one, all at once and with respect to the
  relationships as loaded.
\<close>

definition describedIn :: "relationship option list \<Rightarrow> package \<Rightarrow> bool" where
  "describedIn rels q = isDescribedPackage (Some q) (filter isDescribesRel rels)"

fun idsOf :: "package option list \<Rightarrow> string list" where
  "idsOf [] = []"
| "idsOf (None # ps) = idsOf ps"
| "idsOf (Some q # ps) = PackageSPDXIdentifier q # idsOf ps"

fun assignIds ::
  "mergeEnv \<Rightarrow> nat \<Rightarrow> relationship option list \<Rightarrow> package option list \<Rightarrow>
   (string \<times> string) list" where
  "assignIds e n rels [] = []"
| "assignIds e n rels (None # ps) = assignIds e n rels ps"
| "assignIds e n rels (Some q # ps) =
     (if describedIn rels q
      then (PackageSPDXIdentifier q, ''Package-'' @ uuid_New e n) # assignIds e (Suc n) rels ps
      else assignIds e n rels ps)"

definition rename :: "(string \<times> string) list \<Rightarrow> string \<Rightarrow> string" where
  "rename ren x = (case map_of ren x of None \<Rightarrow> x | Some y \<Rightarrow> y)"


definition renamePkg :: "(string \<times> string) list \<Rightarrow> package option \<Rightarrow> package option" where
  "renamePkg ren p =
     (case p of
        None \<Rightarrow> None
      | Some q \<Rightarrow> Some (q\<lparr>PackageSPDXIdentifier := rename ren (PackageSPDXIdentifier q)\<rparr>))"




fun assignAll :: "mergeEnv \<Rightarrow> nat \<Rightarrow> document list \<Rightarrow> (string \<times> string) list list" where
  "assignAll e n [] = []"
| "assignAll e n (doc # docs) =
     assignIds e n (Relationships doc) (Packages doc) #
     assignAll e (n + length (assignIds e n (Relationships doc) (Packages doc))) docs"




text \<open>An external reference of a given kind; an edit at document scope.\<close>

definition isKind :: "string \<Rightarrow> packageExternalReference option \<Rightarrow> bool" where
  "isKind k ref = (case ref of None \<Rightarrow> False | Some x \<Rightarrow> RefType x = k)"

definition docScope :: "spdxEditDoc \<Rightarrow> bool" where
  "docScope d = (subject (search (cfg d)) = ''document'')"

section \<open>Concrete inputs\<close>

subsection \<open>Edit engine\<close>

definition emptyConfig :: configParams where
  "emptyConfig =
     \<lparr>search = \<lparr>subject = []\<rparr>, c_name = [], c_version = [],
      c_supplier = \<lparr>p_name = [], p_value = []\<rparr>, c_authors = [], c_purl = [], c_cpe = [],
      c_copyright = [], c_description = [], c_repository = [], c_typ = [],
      c_lifecycles = [], shouldName = False, shouldVersion = False,
      shouldSupplier = False, shouldAuthors = False, shouldPurl = False, shouldCpe = False,
      shouldLicenses = False, shouldHashes = False, shouldCopyRight = False,
      shouldLifeCycle = False, shouldDescription = False, shouldRepository = False,
      shouldTyp = False, onMissing = False, onAppend = False\<rparr>"

text \<open>
  An environment whose finder fails on a document without packages, whose constructors
  return nothing and whose table is empty.
\<close>

definition plainEnv :: editEnv where
  "plainEnv =
     \<lparr>spdxFindPkg = (\<lambda>b c primary. case Packages b of [] \<Rightarrow> None | p # ps \<Rightarrow> p),
      spdxConstructLicenses = (\<lambda>b c. []),
      spdxConstructHashes = (\<lambda>b c. None),
      spdxConstructTools = (\<lambda>b c. []),
      spdx_strings_to_types = (\<lambda>s. []),
      utcNowTime = ''2024-01-01T00:00:00Z''\<rparr>"

definition oldCpeRef :: packageExternalReference where
  "oldCpeRef = \<lparr>Category = ''SECURITY'', RefType = ''cpe23Type'',
                 Locator = ''cpe:2.3:a:acme:widget:1.0'', ExternalRefComment = []\<rparr>"

definition newCpeRef :: packageExternalReference where
  "newCpeRef = \<lparr>Category = ''SECURITY'', RefType = ''cpe23Type'',
                 Locator = ''cpe:2.3:a:acme:widget:2.0'', ExternalRefComment = []\<rparr>"

text \<open>A resolved component with one cpe reference, and a cpe configured to overwrite it.\<close>

definition cpeDoc :: spdxEditDoc where
  "cpeDoc = \<lparr>bom = emptyDocument,
     pkg = Some (emptyPackage\<lparr>PackageExternalReferences := Some [Some oldCpeRef]\<rparr>),
     cfg = emptyConfig\<lparr>search := \<lparr>subject = ''primary-component''\<rparr>,
            shouldCpe := True, c_cpe := ''cpe:2.3:a:acme:widget:2.0''\<rparr>\<rparr>"

text \<open>
  An edit of the primary component's name on a document in which no component is found.
\<close>

definition unresolvedDoc :: spdxEditDoc where
  "unresolvedDoc = NewSpdxEditDoc plainEnv emptyDocument
     (emptyConfig\<lparr>search := \<lparr>subject = ''primary-component''\<rparr>,
                  shouldName := True, c_name := ''widget''\<rparr>)"

text \<open>
  A document stamped by an earlier version of the tool, edited at document scope with
  no tool configured.
\<close>

definition staleToolDoc :: spdxEditDoc where
  "staleToolDoc = \<lparr>bom = emptyDocument\<lparr>CreationInfo := Some (emptyCreationInfo
        \<lparr>Creators := Some [\<lparr>Creator = ''sbomasm-0.1.8'', CreatorType = ''Tool''\<rparr>]\<rparr>)\<rparr>,
     pkg = None,
     cfg = emptyConfig\<lparr>search := \<lparr>subject = ''document''\<rparr>\<rparr>\<rparr>"




subsection \<open>Merge\<close>

definition docWithLicenseList :: "string \<Rightarrow> document" where
  "docWithLicenseList v =
     emptyDocument\<lparr>CreationInfo := Some (emptyCreationInfo\<lparr>LicenseListVersion := v\<rparr>)\<rparr>"

text \<open>An instance of the version library's interface that rejects the empty string.\<close>

definition toySemver :: "string semver" where
  "toySemver = \<lparr>NewVersion = (\<lambda>s. if s = [] then None else Some s),
                 LessThan = (\<lambda>v w. length v < length w), String = (\<lambda>v. v)\<rparr>"

definition emptySettings :: mergeSettings where
  "emptySettings =
     \<lparr>App = \<lparr>App_Name = ''product'', App_Version = ''1.0'', App_Description = [],
              App_Authors = [], App_PrimaryPurpose = [], App_Purl = [], App_CPE = [],
              App_License = \<lparr>License_Id = [], License_Expression = []\<rparr>,
              App_Supplier = \<lparr>Name = [], Email = []\<rparr>, App_Checksums = [],
              App_Copyright = []\<rparr>,
      Input_Files = [], Output_File = []\<rparr>"

text \<open>An environment whose clone is the value copy and never fails.\<close>

definition basicEnv :: mergeEnv where
  "basicEnv =
     \<lparr>spdx_hash_algos = (\<lambda>s. s), cloneComp = (\<lambda>p. Some p),
      composeNamespace = (\<lambda>n. ''https://spdx.org/spdxdocs/'' @ n),
      merge_now = ''2024-01-01T00:00:00Z'', GitVersion = ''v0.1.9'',
      uuid_New = (\<lambda>k. ''00000000-0000-4000-8000-00000000000'' @ showNat k)\<rparr>"

text \<open>\<^verbatim>\<open>newMerge\<close>, with the identifier it draws as an argument.\<close>

definition newMerge :: "mergeSettings \<Rightarrow> string \<Rightarrow> merge" where
  "newMerge ms rootUuid =
     \<lparr>settings = ms, out = emptyDocument, ins = [], rootPackageID = rootUuid\<rparr>"

definition widgetPkg :: package where
  "widgetPkg = emptyPackage\<lparr>PackageName := ''widget'',
                            PackageSPDXIdentifier := ''Package-widget''\<rparr>"

definition libPkg :: package where
  "libPkg = emptyPackage\<lparr>PackageName := ''lib'', PackageSPDXIdentifier := ''Package-lib''\<rparr>"

text \<open>
  A document that describes \<open>widget\<close>, which depends on \<open>lib\<close>; its relationship list has
  two nil entries.
\<close>

definition describedDoc :: document where
  "describedDoc = emptyDocument
     \<lparr>Packages := [Some widgetPkg, Some libPkg],
      Relationships :=
        [None,
         Some (relOf ''DOCUMENT'' ''DESCRIBES'' ''Package-widget''),
         Some (relOf ''Package-widget'' ''DEPENDS_ON'' ''Package-lib''),
         None]\<rparr>"

definition sampleMerge :: merge where
  "sampleMerge =
     (newMerge emptySettings ''123e4567-e89b-42d3-a456-426614174000'')
       \<lparr>ins := [describedDoc]\<rparr>"

text \<open>The state in which \<^verbatim>\<open>hierarchicalMerge\<close> leaves \<open>sampleMerge\<close>.\<close>

definition sampleMerged :: merge where
  "sampleMerged = sampleMerge
     \<lparr>ins := [describedDoc\<lparr>Relationships :=
         [None,
          Some (relOf ''DOCUMENT'' ''DESCRIBES''
                  ''Package-00000000-0000-4000-8000-000000000000''),
          Some (relOf ''Package-00000000-0000-4000-8000-000000000000'' ''DEPENDS_ON''
                  ''Package-lib''),
          None]\<rparr>],
      out := emptyDocument
        \<lparr>Packages :=
           [Some (setupPrimaryComp basicEnv sampleMerge),
            Some (widgetPkg\<lparr>PackageSPDXIdentifier :=
                              ''Package-00000000-0000-4000-8000-000000000000''\<rparr>),
            Some libPkg],
         Relationships :=
           [Some (relOf ''DOCUMENT'' ''DESCRIBES''
                    ''RootPackage-123e4567-e89b-42d3-a456-426614174000''),
            Some (relOf ''RootPackage-123e4567-e89b-42d3-a456-426614174000'' ''CONTAINS''
                    ''Package-00000000-0000-4000-8000-000000000000''),
            Some (relOf ''Package-00000000-0000-4000-8000-000000000000'' ''DEPENDS_ON''
                    ''Package-lib'')]\<rparr>\<rparr>"






section \<open>Properties of the synthesized root\<close>

text \<open>
  C10. For every merge configuration (and every hash table and root identifier) the
  root component built by \<^verbatim>\<open>setupPrimaryComp\<close> has the download location
  \<^verbatim>\<open>NOASSERTION\<close> and its analyzed-files flag is false: no setting reaches either
  field.
\<close>

theorem setupPrimaryComp_fixed_fields:
  "PackageDownloadLocation (setupPrimaryComp e m) = ''NOASSERTION'' \<and>
   FilesAnalyzed (setupPrimaryComp e m) = False"
  by (simp add: setupPrimaryComp_def Let_def)

theorem setupPrimaryComp_fixed_fields_witness:
  "PackageDownloadLocation (setupPrimaryComp basicEnv sampleMerge) = ''NOASSERTION'' \<and>
   FilesAnalyzed (setupPrimaryComp basicEnv sampleMerge) = False"
  by (rule setupPrimaryComp_fixed_fields)

section \<open>External references under the overwrite policy\<close>

lemma toLowerChar_not_T: "toLowerChar ch \<noteq> CHR ''T''"
  by (simp add: toLowerChar_def)

lemma ToLower_not_cpe23Type: "ToLower s \<noteq> ''cpe23Type''"
proof
  assume "ToLower s = ''cpe23Type''"
  then have "CHR ''T'' \<in> set (map toLowerChar s)" by (simp add: ToLower_def)
  then obtain x where "toLowerChar x = CHR ''T''" by auto
  then show False using toLowerChar_not_T by blast
qed

text \<open>
  The predicate of the cpe handler compares a lower-cased string with a constant that
  holds a capital letter, so \<^verbatim>\<open>lo.Reject\<close> rejects nothing.
\<close>

lemma Reject_cpe23Type_keeps_all:
  "foundRefType k refs = Normal b \<Longrightarrow>
   Reject (\<lambda>x. ToLower (RefType x) = ''cpe23Type'') refs = Normal refs"
  by (induction k refs arbitrary: b rule: foundRefType.induct)
     (auto simp: ToLower_not_cpe23Type split: outcome.splits)

lemma ToLower_purl: "ToLower ''purl'' = ''purl''"
  by (simp add: ToLower_def toLowerChar_def)

lemma Reject_purl_none_left:
  "Reject (\<lambda>x. ToLower (RefType x) = ''purl'') refs = Normal ys \<Longrightarrow>
   filter (isKind ''purl'') ys = []"
proof (induction refs arbitrary: ys)
  case Nil
  then show ?case by simp
next
  case (Cons ref refs)
  show ?case
  proof (cases ref)
    case None
    then show ?thesis using Cons.prems by simp
  next
    case (Some x)
    from Cons.prems Some obtain zs where
      zs: "Reject (\<lambda>x. ToLower (RefType x) = ''purl'') refs = Normal zs" and
      ys: "ys = (if ToLower (RefType x) = ''purl'' then zs else Some x # zs)"
      by (auto split: outcome.splits)
    have "ToLower (RefType x) \<noteq> ''purl'' \<Longrightarrow> \<not> isKind ''purl'' (Some x)"
      using ToLower_purl by (auto simp: isKind_def)
    then show ?thesis using Cons.IH [OF zs] ys by auto
  qed
qed

text \<open>
  The purl handler does what the overwrite policy promises: when it has applied the
  update, the component holds exactly one reference of the kind \<^verbatim>\<open>purl\<close>.
\<close>

theorem purl_overwrite_exactly_one:
  assumes "\<not> onMissing (cfg d)" "\<not> onAppend (cfg d)" "purl d = Normal (None, d')"
  shows "\<exists>p'. pkg d' = Some p' \<and>
           length (filter (isKind ''purl'') (sliceOf (PackageExternalReferences p'))) = 1"
proof -
  from assms(3) have scope: "shouldPurl (cfg d)" "subject (search (cfg d)) \<noteq> ''document''"
    by (auto simp: purl_def split: if_splits)
  from assms(3) scope obtain p where p: "pkg d = Some p"
    by (cases "pkg d") (auto simp: purl_def)
  from assms(3) scope p obtain found where
    found: "foundRefType ''purl'' (sliceOf (PackageExternalReferences p)) = Normal found"
    by (cases "foundRefType ''purl'' (sliceOf (PackageExternalReferences p))")
       (auto simp: purl_def Let_def)
  let ?new = "\<lparr>Category = ''PACKAGE-MANAGER'', RefType = ''purl'',
               Locator = c_purl (cfg d), ExternalRefComment = []\<rparr>"
  show ?thesis
  proof (cases "PackageExternalReferences p")
    case None
    then have "d' = d\<lparr>pkg := Some (p\<lparr>PackageExternalReferences := Some ([] @ [Some ?new])\<rparr>)\<rparr>"
      using assms scope p found by (simp add: purl_def Let_def sliceOf_def)
    then show ?thesis by (simp add: sliceOf_def isKind_def)
  next
    case (Some refs)
    from assms scope p found Some obtain ys where
      ys: "Reject (\<lambda>x. ToLower (RefType x) = ''purl'') refs = Normal ys" and
      d': "d' = d\<lparr>pkg := Some (p\<lparr>PackageExternalReferences := Some (ys @ [Some ?new])\<rparr>)\<rparr>"
      by (cases "Reject (\<lambda>x. ToLower (RefType x) = ''purl'') refs")
         (auto simp: purl_def Let_def sliceOf_def)
    show ?thesis using Reject_purl_none_left [OF ys] d'
      by (simp add: sliceOf_def isKind_def)
  qed
qed

theorem purl_overwrite_exactly_one_witness:
  "purl (cpeDoc\<lparr>cfg := (cfg cpeDoc)\<lparr>shouldPurl := True, c_purl := ''pkg:npm/widget@2.0''\<rparr>,
               pkg := Some (emptyPackage\<lparr>PackageExternalReferences := Some
                  [Some \<lparr>Category = ''PACKAGE-MANAGER'', RefType = ''purl'',
                         Locator = ''pkg:npm/widget@1.0'', ExternalRefComment = []\<rparr>,
                   Some oldCpeRef]\<rparr>)\<rparr>) =
     Normal (None, cpeDoc\<lparr>cfg := (cfg cpeDoc)\<lparr>shouldPurl := True, c_purl := ''pkg:npm/widget@2.0''\<rparr>,
               pkg := Some (emptyPackage\<lparr>PackageExternalReferences := Some
                  [Some oldCpeRef,
                   Some \<lparr>Category = ''PACKAGE-MANAGER'', RefType = ''purl'',
                         Locator = ''pkg:npm/widget@2.0'', ExternalRefComment = []\<rparr>]\<rparr>)\<rparr>) \<and>
   length (filter (isKind ''purl'')
     [Some oldCpeRef,
      Some \<lparr>Category = ''PACKAGE-MANAGER'', RefType = ''purl'',
             Locator = ''pkg:npm/widget@2.0'', ExternalRefComment = []\<rparr>]) = 1"
proof -
  let ?d = "cpeDoc\<lparr>cfg := (cfg cpeDoc)\<lparr>shouldPurl := True, c_purl := ''pkg:npm/widget@2.0''\<rparr>,
               pkg := Some (emptyPackage\<lparr>PackageExternalReferences := Some
                  [Some \<lparr>Category = ''PACKAGE-MANAGER'', RefType = ''purl'',
                         Locator = ''pkg:npm/widget@1.0'', ExternalRefComment = []\<rparr>,
                   Some oldCpeRef]\<rparr>)\<rparr>"
  let ?d' = "cpeDoc\<lparr>cfg := (cfg cpeDoc)\<lparr>shouldPurl := True, c_purl := ''pkg:npm/widget@2.0''\<rparr>,
               pkg := Some (emptyPackage\<lparr>PackageExternalReferences := Some
                  [Some oldCpeRef,
                   Some \<lparr>Category = ''PACKAGE-MANAGER'', RefType = ''purl'',
                         Locator = ''pkg:npm/widget@2.0'', ExternalRefComment = []\<rparr>]\<rparr>)\<rparr>"
  have pol: "\<not> onMissing (cfg ?d)" "\<not> onAppend (cfg ?d)"
    by (simp_all add: cpeDoc_def emptyConfig_def)
  have run: "purl ?d = Normal (None, ?d')"
    by (simp add: purl_def cpeDoc_def emptyConfig_def emptyPackage_def sliceOf_def
        oldCpeRef_def ToLower_def toLowerChar_def)
  from purl_overwrite_exactly_one [OF pol run] run show ?thesis
    by (simp add: sliceOf_def)
qed

text \<open>
  C1. After an overwrite of purl or cpe at most one external reference of that kind
  should remain. For cpe the handler fails to: on a component that holds one
  \<^verbatim>\<open>cpe23Type\<close> reference, the overwrite returns normally and leaves the old reference
  in place beside the new one.
\<close>

theorem cpe_overwrite_keeps_existing_cpe:
  "cpe cpeDoc =
     Normal (None, cpeDoc\<lparr>pkg := Some (emptyPackage\<lparr>PackageExternalReferences :=
                                   Some [Some oldCpeRef, Some newCpeRef]\<rparr>)\<rparr>)"
  by (simp add: cpe_def cpeDoc_def emptyConfig_def emptyPackage_def sliceOf_def
      oldCpeRef_def newCpeRef_def ToLower_def toLowerChar_def)

section \<open>The update loop and an unresolved component\<close>

text \<open>
  C2. The update loop should run every handler of the table whatever the subject, also
  when a component-scoped field is configured and no component was resolved. It does
  not: with the subject \<^verbatim>\<open>primary-component\<close>, no component found and a name
  configured, the first handler dereferences the nil component and the call panics
  before any other handler runs.
\<close>

theorem update_panics_without_component:
  "pkg unresolvedDoc = None \<and> update plainEnv unresolvedDoc = Panic"
  by (simp add: unresolvedDoc_def NewSpdxEditDoc_def plainEnv_def emptyConfig_def
      emptyDocument_def update_def updateFuncs_def name_def)

text \<open>Every handler returns at document scope, and stays there.\<close>

lemma handlers_docScope:
  assumes "docScope d"
  shows "\<exists>err d'. name d = Normal (err, d') \<and> docScope d'"
    "\<exists>err d'. version d = Normal (err, d') \<and> docScope d'"
    "\<exists>err d'. supplier d = Normal (err, d') \<and> docScope d'"
    "\<exists>err d'. authors d = Normal (err, d') \<and> docScope d'"
    "\<exists>err d'. purl d = Normal (err, d') \<and> docScope d'"
    "\<exists>err d'. cpe d = Normal (err, d') \<and> docScope d'"
    "\<exists>err d'. licenses e d = Normal (err, d') \<and> docScope d'"
    "\<exists>err d'. hashes e d = Normal (err, d') \<and> docScope d'"
    "\<exists>err d'. tools e d = Normal (err, d') \<and> docScope d'"
    "\<exists>err d'. copyright d = Normal (err, d') \<and> docScope d'"
    "\<exists>err d'. lifeCycles d = Normal (err, d') \<and> docScope d'"
    "\<exists>err d'. description d = Normal (err, d') \<and> docScope d'"
    "\<exists>err d'. repository d = Normal (err, d') \<and> docScope d'"
    "\<exists>err d'. typ' e d = Normal (err, d') \<and> docScope d'"
    "\<exists>err d'. timeStamp e d = Normal (err, d') \<and> docScope d'"
  using assms
  by (auto simp: docScope_def name_def version_def supplier_def authors_def purl_def cpe_def
      licenses_def hashes_def tools_def copyright_def lifeCycles_def description_def
      repository_def typ'_def timeStamp_def Let_def split: option.splits)

lemma runUpdateFuncs_docScope:
  assumes "\<forall>item \<in> set items. \<forall>d. docScope d \<longrightarrow> (\<exists>err d'. snd item d = Normal (err, d') \<and> docScope d')"
    and "docScope d"
  shows "\<exists>lg' d'. runUpdateFuncs items lg d = Normal (lg', d') \<and> docScope d'"
  using assms
proof (induction items arbitrary: lg d)
  case Nil
  then show ?case by simp
next
  case (Cons item items)
  from Cons.prems obtain err d1 where s: "snd item d = Normal (err, d1)" "docScope d1"
    by fastforce
  from Cons.IH [of d1] Cons.prems(1) s(2) show ?case using s(1) by simp
qed

text \<open>
  At document scope the loop runs every handler of the table and returns: a field that
  is not supported there is skipped, and no handler touches the component.
\<close>

theorem update_docScope:
  assumes "docScope d"
  shows "\<exists>lg d'. update e d = Normal (lg, d') \<and> docScope d'"
  unfolding update_def
proof (rule runUpdateFuncs_docScope [OF _ assms])
  show "\<forall>item \<in> set (updateFuncs e). \<forall>d. docScope d \<longrightarrow>
          (\<exists>err d'. snd item d = Normal (err, d') \<and> docScope d')"
    using handlers_docScope by (simp add: updateFuncs_def)
qed

theorem update_docScope_witness:
  "docScope staleToolDoc \<and> (\<exists>lg d'. update plainEnv staleToolDoc = Normal (lg, d') \<and> docScope d')"
proof -
  have "docScope staleToolDoc" by (simp add: docScope_def staleToolDoc_def emptyConfig_def)
  with update_docScope [of staleToolDoc plainEnv] show ?thesis by blast
qed

section \<open>The license-list version\<close>

lemma finalLicVersion_none: "finalLicVersion sv [] = Normal ''3.19''"
  by (simp add: finalLicVersion_def Uniq_def)

lemma finalLicVersion_single:
  "finalLicVersion sv [docWithLicenseList ''3.21''] = Normal ''3.21''"
  by (simp add: finalLicVersion_def Uniq_def licenseListVersionOf_def docWithLicenseList_def
      emptyDocument_def emptyCreationInfo_def Trim_def)

lemma finalLicVersion_blank:
  "finalLicVersion sv [docWithLicenseList '' ''] = Normal ''3.19''"
  by (simp add: finalLicVersion_def Uniq_def licenseListVersionOf_def docWithLicenseList_def
      emptyDocument_def emptyCreationInfo_def Trim_def)

text \<open>
  Without any version among the inputs the output carries the default \<^verbatim>\<open>3.19\<close>; a
  single input with the version \<^verbatim>\<open>3.21\<close> gives \<^verbatim>\<open>3.21\<close>.
\<close>

theorem finalLicVersion_examples:
  "finalLicVersion sv [] = Normal ''3.19'' \<and>
   finalLicVersion sv [docWithLicenseList ''3.21''] = Normal ''3.21''"
  using finalLicVersion_none finalLicVersion_single by blast

text \<open>
  C3. With exactly one distinct non-empty license-list version among the inputs, that
  version should be used verbatim. The code keeps an empty string for every input
  without a version, so one input with \<^verbatim>\<open>3.19\<close> and one without any makes two
  candidates, the empty one is handed to the parser, and with a parser that rejects the
  empty string the merge panics.
\<close>

theorem finalLicVersion_panics_on_absent_version:
  assumes "NewVersion sv [] = None"
  shows "finalLicVersion sv [docWithLicenseList ''3.19'', emptyDocument] = Panic"
  using assms
  by (simp add: finalLicVersion_def Uniq_def licenseListVersionOf_def docWithLicenseList_def
      emptyDocument_def emptyCreationInfo_def split: option.splits)

theorem finalLicVersion_panics_on_absent_version_witness:
  "NewVersion toySemver [] = None \<and>
   finalLicVersion toySemver [docWithLicenseList ''3.19'', emptyDocument] = Panic"
  using finalLicVersion_panics_on_absent_version [of toySemver]
  by (simp add: toySemver_def)

section \<open>The hierarchical merge\<close>

subsection \<open>Output packages and relationships only grow\<close>

lemma ingestPackage_deps:
  "ingestPackage e pcId pk (n, pkgs, deps, rels) = Normal (n', pkgs', deps', rels') \<Longrightarrow>
   \<exists>extra. deps' = deps @ extra \<and> None \<notin> set extra"
  by (auto simp: ingestPackage.simps Let_def split: option.splits if_splits)

lemma ingestPackage_pkgs:
  "ingestPackage e pcId pk (n, pkgs, deps, rels) = Normal (n', pkgs', deps', rels') \<Longrightarrow>
   \<exists>extra. pkgs' = pkgs @ extra"
  by (auto simp: ingestPackage.simps Let_def split: option.splits if_splits)

lemma ingestPackages_deps:
  "ingestPackages e pcId ps (n, pkgs, deps, rels) = Normal (n', pkgs', deps', rels') \<Longrightarrow>
   \<exists>extra. deps' = deps @ extra \<and> None \<notin> set extra"
proof (induction ps arbitrary: n pkgs deps rels)
  case Nil
  then show ?case by simp
next
  case (Cons pk rest)
  from Cons.prems obtain n1 pkgs1 deps1 rels1 where
    a: "ingestPackage e pcId pk (n, pkgs, deps, rels) = Normal (n1, pkgs1, deps1, rels1)" and
    b: "ingestPackages e pcId rest (n1, pkgs1, deps1, rels1) = Normal (n', pkgs', deps', rels')"
    by (auto split: outcome.splits)
  from ingestPackage_deps [OF a] obtain x1 where "deps1 = deps @ x1" "None \<notin> set x1" by blast
  moreover from Cons.IH [OF b] obtain x2 where "deps' = deps1 @ x2" "None \<notin> set x2" by blast
  ultimately have "deps' = deps @ (x1 @ x2) \<and> None \<notin> set (x1 @ x2)" by simp
  then show ?case by blast
qed

lemma ingestPackages_pkgs:
  "ingestPackages e pcId ps (n, pkgs, deps, rels) = Normal (n', pkgs', deps', rels') \<Longrightarrow>
   \<exists>extra. pkgs' = pkgs @ extra"
proof (induction ps arbitrary: n pkgs deps rels)
  case Nil
  then show ?case by simp
next
  case (Cons pk rest)
  from Cons.prems obtain n1 pkgs1 deps1 rels1 where
    a: "ingestPackage e pcId pk (n, pkgs, deps, rels) = Normal (n1, pkgs1, deps1, rels1)" and
    b: "ingestPackages e pcId rest (n1, pkgs1, deps1, rels1) = Normal (n', pkgs', deps', rels')"
    by (auto split: outcome.splits)
  from ingestPackage_pkgs [OF a] obtain x1 where "pkgs1 = pkgs @ x1" by blast
  moreover from Cons.IH [OF b] obtain x2 where "pkgs' = pkgs1 @ x2" by blast
  ultimately have "pkgs' = pkgs @ (x1 @ x2)" by simp
  then show ?case by blast
qed

lemma ingestDocs_deps_pkgs:
  "ingestDocs e pcId docs (n, pkgs, deps) = Normal (docs', n', pkgs', deps') \<Longrightarrow>
   (\<exists>extra. deps' = deps @ extra \<and> None \<notin> set extra) \<and> (\<exists>extra. pkgs' = pkgs @ extra)"
proof (induction docs arbitrary: n pkgs deps docs')
  case Nil
  then show ?case by simp
next
  case (Cons doc docs)
  from Cons.prems obtain n1 pkgs1 deps1 rels1 docs1 where
    a: "ingestPackages e pcId (Packages doc) (n, pkgs, deps, Relationships doc)
          = Normal (n1, pkgs1, deps1, rels1)" and
    b: "ingestDocs e pcId docs (n1, pkgs1, deps1) = Normal (docs1, n', pkgs', deps')"
    by (auto split: outcome.splits)
  from ingestPackages_deps [OF a] obtain x1 where x1: "deps1 = deps @ x1" "None \<notin> set x1"
    by blast
  from ingestPackages_pkgs [OF a] obtain y1 where y1: "pkgs1 = pkgs @ y1" by blast
  from Cons.IH [OF b] obtain x2 y2 where
    x2: "deps' = deps1 @ x2" "None \<notin> set x2" "pkgs' = pkgs1 @ y2" by blast
  have "deps' = deps @ (x1 @ x2) \<and> None \<notin> set (x1 @ x2)" using x1 x2 by simp
  moreover have "pkgs' = pkgs @ (y1 @ y2)" using y1 x2 by simp
  ultimately show ?case by blast
qed

subsection \<open>A concrete run\<close>

lemma showNat_0: "showNat 0 = ''0''"
  by simp

lemma sampleMerge_result: "hierarchicalMerge basicEnv sampleMerge = Normal sampleMerged"
  by (simp add: hierarchicalMerge_def sampleMerge_def sampleMerged_def newMerge_def
      describedDoc_def widgetPkg_def libPkg_def relOf_def basicEnv_def emptySettings_def
      setupPrimaryComp_def emptyPackage_def emptyDocument_def MakeDocElementID_def
      ingestPackage.simps isDescribesRel_def isOtherRel_def rewriteRel_def Let_def
      TypeRelationshipDescribe_def TypeRelationshipContains_def)

subsection \<open>The root comes first\<close>




subsection \<open>Nil relationships\<close>

lemma rewriteRel_None_iff: "rewriteRel old new rel = None \<longleftrightarrow> rel = None"
  by (cases rel) (simp_all add: rewriteRel_def Let_def)

lemma notNil_isDescribesRel [simp]: "(notNil x \<and> isDescribesRel x) = isDescribesRel x"
  by (cases x) (simp_all add: notNil_def isDescribesRel_def)

lemma notNil_isOtherRel [simp]: "(notNil x \<and> isOtherRel x) = isOtherRel x"
  by (cases x) (simp_all add: notNil_def isOtherRel_def)

lemma map_rewriteRel_dropNil:
  "map (rewriteRel old new) (filter notNil rels) =
   filter notNil (map (rewriteRel old new) rels)"
  by (induction rels) (auto simp: rewriteRel_None_iff notNil_def)

lemma ingestPackage_dropNil:
  "ingestPackage e pcId pk (dropNilState st) = mapOutcome dropNilState (ingestPackage e pcId pk st)"
  by (cases st)
     (simp add: dropNilState_def ingestPackage.simps Let_def
        map_rewriteRel_dropNil split: option.splits)

lemma ingestPackages_dropNil:
  "ingestPackages e pcId ps (dropNilState st) =
   mapOutcome dropNilState (ingestPackages e pcId ps st)"
proof (induction ps arbitrary: st)
  case Nil
  then show ?case by simp
next
  case (Cons pk rest)
  show ?case
  proof (cases "ingestPackage e pcId pk st")
    case Panic
    then show ?thesis by (simp add: ingestPackage_dropNil)
  next
    case (Normal st1)
    then show ?thesis by (simp add: ingestPackage_dropNil Cons.IH)
  qed
qed

lemma ingestDocs_dropNil:
  "ingestDocs e pcId (map dropNilRels docs) st =
   mapOutcome (\<lambda>r. (map dropNilRels (fst r), snd r)) (ingestDocs e pcId docs st)"
proof (induction docs arbitrary: st)
  case Nil
  then show ?case by simp
next
  case (Cons doc docs)
  obtain n pkgs deps where st: "st = (n, pkgs, deps)" by (cases st)
  have eq: "ingestPackages e pcId (Packages doc)
              (n, pkgs, deps, filter notNil (Relationships doc)) =
            mapOutcome dropNilState
              (ingestPackages e pcId (Packages doc) (n, pkgs, deps, Relationships doc))"
    using ingestPackages_dropNil [of e pcId "Packages doc" "(n, pkgs, deps, Relationships doc)"]
    by (simp add: dropNilState_def)
  show ?case
  proof (cases "ingestPackages e pcId (Packages doc) (n, pkgs, deps, Relationships doc)")
    case Panic
    then show ?thesis using eq by (simp add: st dropNilRels_def)
  next
    case (Normal st1)
    note step = this
    obtain n1 pkgs1 deps1 rels1 where st1: "st1 = (n1, pkgs1, deps1, rels1)" by (cases st1)
    show ?thesis
    proof (cases "ingestDocs e pcId docs (n1, pkgs1, deps1)")
      case Panic
      then show ?thesis using eq step st1 Cons.IH [of "(n1, pkgs1, deps1)"]
        by (simp add: st dropNilRels_def dropNilState_def)
    next
      case (Normal r)
      obtain docs1 st2 where r: "r = (docs1, st2)" by (cases r)
      show ?thesis
        using eq step st1 Normal r Cons.IH [of "(n1, pkgs1, deps1)"]
        by (simp add: st dropNilRels_def dropNilState_def)
    qed
  qed
qed

lemma setupPrimaryComp_ins: "setupPrimaryComp e (m\<lparr>ins := x\<rparr>) = setupPrimaryComp e m"
  by (simp add: setupPrimaryComp_def)

lemma comp_dropNilRels [simp]:
  "Files \<circ> dropNilRels = Files"
  "OtherLicenses \<circ> dropNilRels = OtherLicenses"
  "(\<lambda>doc. filter isOtherRel (Relationships doc)) \<circ> dropNilRels =
   (\<lambda>doc. filter isOtherRel (Relationships doc))"
  by (rule ext, simp add: dropNilRels_def)+

lemma hierarchicalMerge_dropNil:
  "mapOutcome out (hierarchicalMerge e (m\<lparr>ins := map dropNilRels (ins m)\<rparr>)) =
   mapOutcome out (hierarchicalMerge e m)"
proof -
  let ?pc = "setupPrimaryComp e m"
  let ?st = "(0::nat, [Some ?pc],
     [] @ [Some \<lparr>RefA = MakeDocElementID [] ''DOCUMENT'',
                  RefB = MakeDocElementID [] (PackageSPDXIdentifier ?pc),
                  Relationship = TypeRelationshipDescribe, RelationshipComment = []\<rparr>])"
  show ?thesis
  proof (cases "ingestDocs e (PackageSPDXIdentifier ?pc) (ins m) ?st")
    case Panic
    then show ?thesis
      using ingestDocs_dropNil [of e "PackageSPDXIdentifier ?pc" "ins m" ?st]
      by (simp add: hierarchicalMerge_def setupPrimaryComp_ins)
  next
    case (Normal r)
    obtain docs n pkgs deps where r: "r = (docs, n, pkgs, deps)" by (cases r)
    show ?thesis
      using Normal r ingestDocs_dropNil [of e "PackageSPDXIdentifier ?pc" "ins m" ?st]
      by (simp add: hierarchicalMerge_def setupPrimaryComp_ins)
  qed
qed

lemma hierarchicalMerge_no_nil:
  assumes "hierarchicalMerge e m = Normal m'"
  shows "None \<notin> set (Relationships (out m'))"
proof -
  let ?pc = "setupPrimaryComp e m"
  from assms obtain docs n pkgs deps d0 where
    a: "ingestDocs e (PackageSPDXIdentifier ?pc) (ins m) (0, [Some ?pc], [Some d0])
          = Normal (docs, n, pkgs, deps)" and
    b: "Relationships (out m') =
          deps @ concat (map (\<lambda>doc. filter isOtherRel (Relationships doc)) docs)"
    by (auto simp: hierarchicalMerge_def Let_def split: outcome.splits)
  from ingestDocs_deps_pkgs [OF a] obtain x where "deps = [Some d0] @ x" "None \<notin> set x"
    by blast
  then show ?thesis using b by (auto simp: isOtherRel_def)
qed

text \<open>
  C9. Nil entries of an input's relationship list are skipped everywhere: the merge of
  the inputs with their nil relationships removed has the same outcome (the same
  output document, or a panic in both cases), so a nil entry is never dereferenced
  and takes no part in the detection of described packages or in the rewriting; and
  no entry of the output's relationship list is nil.
\<close>

theorem hierarchicalMerge_skips_nil_relationships:
  "mapOutcome out (hierarchicalMerge e (m\<lparr>ins := map dropNilRels (ins m)\<rparr>)) =
     mapOutcome out (hierarchicalMerge e m) \<and>
   (\<forall>m'. hierarchicalMerge e m = Normal m' \<longrightarrow> None \<notin> set (Relationships (out m')))"
  using hierarchicalMerge_dropNil hierarchicalMerge_no_nil by blast

theorem hierarchicalMerge_skips_nil_relationships_witness:
  "None \<in> set (Relationships (hd (ins sampleMerge))) \<and>
   hierarchicalMerge basicEnv sampleMerge = Normal sampleMerged \<and>
   mapOutcome out (hierarchicalMerge basicEnv (sampleMerge\<lparr>ins := map dropNilRels (ins sampleMerge)\<rparr>)) =
     Normal (out sampleMerged) \<and>
   None \<notin> set (Relationships (out sampleMerged))"
proof -
  have "None \<in> set (Relationships (hd (ins sampleMerge)))"
    by (simp add: sampleMerge_def describedDoc_def)
  then show ?thesis
    using hierarchicalMerge_skips_nil_relationships [of basicEnv sampleMerge] sampleMerge_result
    by simp
qed

subsection \<open>What the merge does to its inputs\<close>












section \<open>The tools field\<close>











lemma creatorsOf_setCreators [simp]: "creatorsOf (setCreators b cs) = cs"
  by (simp add: creatorsOf_def setCreators_def sliceOf_def)

lemma creatorsOf_ensureCreators [simp]: "creatorsOf (ensureCreators b) = creatorsOf b"
  by (simp add: creatorsOf_def ensureCreators_def sliceOf_def emptyCreationInfo_def Let_def
      split: option.splits)










section \<open>The missing policy applied twice\<close>














lemma DataLicense_same: "DataLicense b = x \<Longrightarrow> b\<lparr>DataLicense := x\<rparr> = b"
  by simp


lemma ensureCreators_setCreators [simp]:
  "ensureCreators (setCreators b cs) = setCreators b cs"
  by (simp add: ensureCreators_def setCreators_def Let_def)

lemma setCreators_setCreators [simp]:
  "setCreators (setCreators b cs) cs' = setCreators b cs'"
  by (simp add: setCreators_def)






subsection \<open>The rewriting of relationships\<close>

lemma rewriteRel_None [simp]: "rewriteRel old new None = None"
  by (simp add: rewriteRel_def)










lemma rename_not_key:
  assumes "x \<notin> fst ` set ren"
  shows "rename ren x = x"
proof -
  have "map_of ren x = None" using assms by (simp add: map_of_eq_None_iff)
  then show ?thesis by (simp add: rename_def)
qed



lemma renamePkg_not_key:
  assumes "set (idsOf ps) \<inter> fst ` set ren = {}"
  shows "map (renamePkg ren) ps = ps"
  using assms
proof (induction ps)
  case Nil
  then show ?case by simp
next
  case (Cons p ps)
  show ?case
  proof (cases p)
    case None
    then show ?thesis using Cons by (simp add: renamePkg_def)
  next
    case (Some q)
    then have "rename ren (PackageSPDXIdentifier q) = PackageSPDXIdentifier q"
      using Cons.prems by (intro rename_not_key) auto
    then show ?thesis using Some Cons by (simp add: renamePkg_def)
  qed
qed



lemma length_assignAll [simp]: "length (assignAll e n docs) = length docs"
  by (induction docs arbitrary: n) simp_all












end
